theory Spec2Isabelle
  imports Main "HOL-Library.Word"
begin

unbundle bit_operations_syntax

section \<open>Values, host errors and panics\<close>

text \<open>
  The scripting engine is reached through a C ABI that is not part of \<^verbatim>\<open>context.go\<close>.
  A foreign value is a tag with an opaque payload; only the tags that the host code
  inspects are told apart.
\<close>

datatype JSTag =
    JS_TAG_MODULE
  | JS_TAG_FUNCTION_BYTECODE
  | JS_TAG_OBJECT
  | JS_TAG_INT
  | JS_TAG_BOOL
  | JS_TAG_NULL
  | JS_TAG_UNDEFINED
  | JS_TAG_UNINITIALIZED
  | JS_TAG_EXCEPTION
  | JS_TAG_FLOAT64
  | JS_TAG_STRING

datatype JSValue = JSValue (ValueGetTag: JSTag) (payload: nat)

type_synonym byte = "8 word"

text \<open>
  Host errors: the \<^verbatim>\<open>*Error\<close> built from a script exception (cause and stack), the
  fixed-message errors of \<^verbatim>\<open>fmt.Errorf\<close>, and the errors of \<^verbatim>\<open>os.ReadFile\<close>.
  Go's nil error is \<open>None\<close>.
\<close>

datatype Error =
    JSError string string
  | Errorf string
  | PathError string

datatype Panic =
    PanicError Error
  | PanicIndexOutOfRange
  | PanicHandleSpace

definition IsException :: "JSValue \<Rightarrow> bool" where
  "IsException v = (ValueGetTag v = JS_TAG_EXCEPTION)"

definition JS_NULL :: JSValue where
  "JS_NULL = JSValue JS_TAG_NULL 0"

section \<open>The engine ABI\<close>

datatype ProxyKind = InvokeProxy | InvokeAsyncProxy

text \<open>
  The engine is a parameter: one function per foreign entry point used by
  \<^verbatim>\<open>context.go\<close>, over an engine state \<open>'s\<close>, together with the flag constants of the
  engine's header. \<open>JS_WriteObject\<close> yields the written buffer (\<open>None\<close> for a NULL
  pointer) and the size it stored through its \<^verbatim>\<open>size_t\<close> out-parameter.
  \<open>Value_Error\<close> stands for \<^verbatim>\<open>Value.Error\<close> of \<^verbatim>\<open>value.go\<close>, which turns a
  fetched exception value into a host error, or into nil.
\<close>

record 's Engine =
  JS_EVAL_TYPE_GLOBAL :: "32 word"
  JS_EVAL_TYPE_MODULE :: "32 word"
  JS_EVAL_FLAG_STRICT :: "32 word"
  JS_EVAL_FLAG_STRIP :: "32 word"
  JS_EVAL_FLAG_COMPILE_ONLY :: "32 word"
  JS_DetectModule :: "string \<Rightarrow> int"
  JS_Eval :: "string \<Rightarrow> string \<Rightarrow> 32 word \<Rightarrow> 's \<Rightarrow> JSValue \<times> 's"
  js_std_await :: "JSValue \<Rightarrow> 's \<Rightarrow> JSValue \<times> 's"
  JS_GetException :: "'s \<Rightarrow> JSValue \<times> 's"
  Value_Error :: "JSValue \<Rightarrow> 's \<Rightarrow> Error option"
  JS_FreeValue :: "JSValue \<Rightarrow> 's \<Rightarrow> 's"
  JS_FreeContext :: "'s \<Rightarrow> 's"
  JS_GetGlobalObject :: "'s \<Rightarrow> JSValue \<times> 's"
  JS_NewCFunction :: "ProxyKind \<Rightarrow> 's \<Rightarrow> JSValue \<times> 's"
  JS_NewInt64 :: "64 word \<Rightarrow> JSValue"
  JS_NewArrayBufferCopy :: "byte list \<Rightarrow> 's \<Rightarrow> JSValue \<times> 's"
  JS_Call :: "JSValue \<Rightarrow> JSValue \<Rightarrow> JSValue list \<Rightarrow> 's \<Rightarrow> JSValue \<times> 's"
  JS_ResolveModule :: "JSValue \<Rightarrow> 's \<Rightarrow> int \<times> 's"
  js_module_set_import_meta :: "JSValue \<Rightarrow> 's \<Rightarrow> 's"
  JS_ReadObject :: "byte list \<Rightarrow> 's \<Rightarrow> JSValue \<times> 's"
  JS_WriteObject :: "JSValue \<Rightarrow> 's \<Rightarrow> (byte list option \<times> 64 word) \<times> 's"
  js_free :: "byte list option \<Rightarrow> 's \<Rightarrow> 's"

section \<open>Context, handle registry and the trace of foreign calls\<close>

text \<open>What a handle of \<^verbatim>\<open>runtime/cgo\<close> refers to: a registered closure or the Context.\<close>

datatype HostObj = SyncFn nat | AsyncFn nat | ContextRef

datatype Call =
    C_JS_Eval string string "32 word"
  | C_js_std_await JSValue
  | C_JS_GetException
  | C_JS_FreeValue JSValue
  | C_JS_FreeContext
  | C_JS_GetGlobalObject
  | C_JS_NewCFunction ProxyKind
  | C_JS_NewArrayBufferCopy "byte list"
  | C_JS_Call JSValue JSValue "JSValue list"
  | C_JS_ResolveModule JSValue
  | C_js_module_set_import_meta JSValue
  | C_JS_ReadObject "byte list"
  | C_JS_WriteObject JSValue
  | C_js_free "byte list option"
  | C_NewHandle "64 word" HostObj

text \<open>
  The Context struct (\<open>ref\<close>, \<open>globals\<close>, \<open>proxy\<close>, \<open>asyncProxy\<close>; a nil pointer is
  \<open>None\<close>) together with what its methods reach outside it: the process-wide handle
  table of \<^verbatim>\<open>runtime/cgo\<close>, the files \<^verbatim>\<open>os.ReadFile\<close> sees, and the trace of the
  foreign calls made so far, oldest first.
\<close>

record 's Context =
  ref :: 's
  globals :: "JSValue option"
  proxy :: "JSValue option"
  asyncProxy :: "JSValue option"
  handleIdx :: "64 word"
  handles :: "64 word \<rightharpoonup> HostObj"
  os_ReadFile :: "string \<Rightarrow> Error + string"
  trace :: "Call list"

definition emit :: "Call \<Rightarrow> 's Context \<Rightarrow> 's Context" where
  "emit c ctx = ctx\<lparr>trace := trace ctx @ [c]\<rparr>"

definition call_JS_Eval ::
  "'s Engine \<Rightarrow> string \<Rightarrow> string \<Rightarrow> 32 word \<Rightarrow> 's Context \<Rightarrow> JSValue \<times> 's Context" where
  "call_JS_Eval E code fname cFlag ctx =
     (let (v, s) = JS_Eval E code fname cFlag (ref ctx)
      in (v, emit (C_JS_Eval code fname cFlag) (ctx\<lparr>ref := s\<rparr>)))"

definition call_js_std_await :: "'s Engine \<Rightarrow> JSValue \<Rightarrow> 's Context \<Rightarrow> JSValue \<times> 's Context" where
  "call_js_std_await E v ctx =
     (let (r, s) = js_std_await E v (ref ctx)
      in (r, emit (C_js_std_await v) (ctx\<lparr>ref := s\<rparr>)))"

definition call_JS_GetException :: "'s Engine \<Rightarrow> 's Context \<Rightarrow> JSValue \<times> 's Context" where
  "call_JS_GetException E ctx =
     (let (v, s) = JS_GetException E (ref ctx)
      in (v, emit C_JS_GetException (ctx\<lparr>ref := s\<rparr>)))"

definition call_JS_GetGlobalObject :: "'s Engine \<Rightarrow> 's Context \<Rightarrow> JSValue \<times> 's Context" where
  "call_JS_GetGlobalObject E ctx =
     (let (v, s) = JS_GetGlobalObject E (ref ctx)
      in (v, emit C_JS_GetGlobalObject (ctx\<lparr>ref := s\<rparr>)))"

definition call_JS_NewCFunction :: "'s Engine \<Rightarrow> ProxyKind \<Rightarrow> 's Context \<Rightarrow> JSValue \<times> 's Context" where
  "call_JS_NewCFunction E k ctx =
     (let (v, s) = JS_NewCFunction E k (ref ctx)
      in (v, emit (C_JS_NewCFunction k) (ctx\<lparr>ref := s\<rparr>)))"

definition call_JS_NewArrayBufferCopy ::
  "'s Engine \<Rightarrow> byte list \<Rightarrow> 's Context \<Rightarrow> JSValue \<times> 's Context" where
  "call_JS_NewArrayBufferCopy E bs ctx =
     (let (v, s) = JS_NewArrayBufferCopy E bs (ref ctx)
      in (v, emit (C_JS_NewArrayBufferCopy bs) (ctx\<lparr>ref := s\<rparr>)))"

definition call_JS_Call ::
  "'s Engine \<Rightarrow> JSValue \<Rightarrow> JSValue \<Rightarrow> JSValue list \<Rightarrow> 's Context \<Rightarrow> JSValue \<times> 's Context" where
  "call_JS_Call E fn this args ctx =
     (let (v, s) = JS_Call E fn this args (ref ctx)
      in (v, emit (C_JS_Call fn this args) (ctx\<lparr>ref := s\<rparr>)))"

definition call_JS_ResolveModule :: "'s Engine \<Rightarrow> JSValue \<Rightarrow> 's Context \<Rightarrow> int \<times> 's Context" where
  "call_JS_ResolveModule E v ctx =
     (let (r, s) = JS_ResolveModule E v (ref ctx)
      in (r, emit (C_JS_ResolveModule v) (ctx\<lparr>ref := s\<rparr>)))"

definition call_js_module_set_import_meta :: "'s Engine \<Rightarrow> JSValue \<Rightarrow> 's Context \<Rightarrow> 's Context" where
  "call_js_module_set_import_meta E v ctx =
     emit (C_js_module_set_import_meta v) (ctx\<lparr>ref := js_module_set_import_meta E v (ref ctx)\<rparr>)"

definition call_JS_ReadObject :: "'s Engine \<Rightarrow> byte list \<Rightarrow> 's Context \<Rightarrow> JSValue \<times> 's Context" where
  "call_JS_ReadObject E buf ctx =
     (let (v, s) = JS_ReadObject E buf (ref ctx)
      in (v, emit (C_JS_ReadObject buf) (ctx\<lparr>ref := s\<rparr>)))"

definition call_JS_WriteObject ::
  "'s Engine \<Rightarrow> JSValue \<Rightarrow> 's Context \<Rightarrow> (byte list option \<times> 64 word) \<times> 's Context" where
  "call_JS_WriteObject E v ctx =
     (let (r, s) = JS_WriteObject E v (ref ctx)
      in (r, emit (C_JS_WriteObject v) (ctx\<lparr>ref := s\<rparr>)))"

definition call_js_free :: "'s Engine \<Rightarrow> byte list option \<Rightarrow> 's Context \<Rightarrow> 's Context" where
  "call_js_free E p ctx = emit (C_js_free p) (ctx\<lparr>ref := js_free E p (ref ctx)\<rparr>)"

definition call_JS_FreeContext :: "'s Engine \<Rightarrow> 's Context \<Rightarrow> 's Context" where
  "call_JS_FreeContext E ctx = emit C_JS_FreeContext (ctx\<lparr>ref := JS_FreeContext E (ref ctx)\<rparr>)"

text \<open>\<^verbatim>\<open>Value.Free\<close> releases the one reference the Value owns.\<close>

definition Value_Free :: "'s Engine \<Rightarrow> JSValue \<Rightarrow> 's Context \<Rightarrow> 's Context" where
  "Value_Free E v ctx = emit (C_JS_FreeValue v) (ctx\<lparr>ref := JS_FreeValue E v (ref ctx)\<rparr>)"

text \<open>
  \<^verbatim>\<open>cgo.NewHandle\<close>: the counter is a \<^verbatim>\<open>uintptr\<close> that is incremented first; the call
  panics when the incremented counter is zero, and stores the object otherwise.
\<close>

definition NewHandle :: "HostObj \<Rightarrow> 's Context \<Rightarrow> 64 word option \<times> 's Context" where
  "NewHandle obj ctx =
     (let h = handleIdx ctx + 1;
          ctx1 = ctx\<lparr>handleIdx := h\<rparr>
      in if h = 0 then (None, ctx1)
         else (Some h, emit (C_NewHandle h obj) (ctx1\<lparr>handles := (handles ctx1)(h \<mapsto> obj)\<rparr>)))"

section \<open>Context operations\<close>

definition Close :: "'s Engine \<Rightarrow> 's Context \<Rightarrow> 's Context" where
  "Close E ctx =
     (let ctx1 = (case proxy ctx of None \<Rightarrow> ctx | Some p \<Rightarrow> Value_Free E p ctx);
          ctx2 = (case asyncProxy ctx1 of None \<Rightarrow> ctx1 | Some a \<Rightarrow> Value_Free E a ctx1);
          ctx3 = (case globals ctx2 of None \<Rightarrow> ctx2 | Some g \<Rightarrow> Value_Free E g ctx2)
      in call_JS_FreeContext E ctx3)"

definition Null :: "'s Context \<Rightarrow> JSValue" where
  "Null ctx = JS_NULL"

definition Int64 :: "'s Engine \<Rightarrow> 64 word \<Rightarrow> JSValue" where
  "Int64 E v = JS_NewInt64 E v"

text \<open>\<^verbatim>\<open>&binaryData[0]\<close> is a bounds-checked index: on the empty slice it panics.\<close>

definition ArrayBuffer :: "'s Engine \<Rightarrow> byte list \<Rightarrow> 's Context \<Rightarrow> Panic + JSValue \<times> 's Context" where
  "ArrayBuffer E binaryData ctx =
     (case binaryData of
        [] \<Rightarrow> Inl PanicIndexOutOfRange
      | _ # _ \<Rightarrow> Inr (call_JS_NewArrayBufferCopy E binaryData ctx))"

definition Globals :: "'s Engine \<Rightarrow> 's Context \<Rightarrow> JSValue \<times> 's Context" where
  "Globals E ctx =
     (case globals ctx of
        None \<Rightarrow> (let (g, ctx1) = call_JS_GetGlobalObject E ctx in (g, ctx1\<lparr>globals := Some g\<rparr>))
      | Some g \<Rightarrow> (g, ctx))"

text \<open>
  \<^verbatim>\<open>Exception\<close>: fetch the pending exception, convert it, and release it (the deferred
  \<^verbatim>\<open>Free\<close> runs after the conversion).
\<close>

definition Exception :: "'s Engine \<Rightarrow> 's Context \<Rightarrow> Error option \<times> 's Context" where
  "Exception E ctx =
     (let (val, ctx1) = call_JS_GetException E ctx;
          err = Value_Error E val (ref ctx1)
      in (err, Value_Free E val ctx1))"

section \<open>Evaluation options\<close>

record EvalOptions =
  js_eval_type_global :: bool
  js_eval_type_module :: bool
  js_eval_flag_strict :: bool
  js_eval_flag_strip :: bool
  js_eval_flag_compile_only :: bool
  filename :: string
  await :: bool

type_synonym EvalOption = "EvalOptions \<Rightarrow> EvalOptions"

definition EvalFlagGlobal :: "bool \<Rightarrow> EvalOption" where
  "EvalFlagGlobal global = (\<lambda>flags. flags\<lparr>js_eval_type_global := global\<rparr>)"

definition EvalFlagModule :: "bool \<Rightarrow> EvalOption" where
  "EvalFlagModule module = (\<lambda>flags. flags\<lparr>js_eval_type_module := module\<rparr>)"

definition EvalFlagStrict :: "bool \<Rightarrow> EvalOption" where
  "EvalFlagStrict strict = (\<lambda>flags. flags\<lparr>js_eval_flag_strict := strict\<rparr>)"

definition EvalFlagStrip :: "bool \<Rightarrow> EvalOption" where
  "EvalFlagStrip strip = (\<lambda>flags. flags\<lparr>js_eval_flag_strip := strip\<rparr>)"

definition EvalFlagCompileOnly :: "bool \<Rightarrow> EvalOption" where
  "EvalFlagCompileOnly compileOnly = (\<lambda>flags. flags\<lparr>js_eval_flag_compile_only := compileOnly\<rparr>)"

definition EvalFileName :: "string \<Rightarrow> EvalOption" where
  "EvalFileName fname = (\<lambda>flags. flags\<lparr>filename := fname\<rparr>)"

definition EvalAwait :: "bool \<Rightarrow> EvalOption" where
  "EvalAwait aw = (\<lambda>flags. flags\<lparr>await := aw\<rparr>)"

text \<open>The loop \<^verbatim>\<open>for _, fn := range opts { fn(&options) }\<close>.\<close>

fun apply_opts :: "EvalOption list \<Rightarrow> EvalOptions \<Rightarrow> EvalOptions" where
  "apply_opts [] options = options"
| "apply_opts (fn # opts) options = apply_opts opts (fn options)"

text \<open>The options \<^verbatim>\<open>Eval\<close> starts from, and Go's zero value \<^verbatim>\<open>EvalOptions{}\<close>.\<close>

definition Eval_initial :: EvalOptions where
  "Eval_initial =
     \<lparr>js_eval_type_global = True, js_eval_type_module = False, js_eval_flag_strict = False,
      js_eval_flag_strip = False, js_eval_flag_compile_only = False,
      filename = ''<input>'', await = False\<rparr>"

definition EvalOptions_zero :: EvalOptions where
  "EvalOptions_zero =
     \<lparr>js_eval_type_global = False, js_eval_type_module = False, js_eval_flag_strict = False,
      js_eval_flag_strip = False, js_eval_flag_compile_only = False,
      filename = [], await = False\<rparr>"

section \<open>Eval\<close>

text \<open>The flag word built from the options (lines 314 to 329 of \<^verbatim>\<open>context.go\<close>).\<close>

definition options_cFlag :: "'s Engine \<Rightarrow> EvalOptions \<Rightarrow> 32 word" where
  "options_cFlag E options =
     (let cFlag = 0;
          cFlag = (if js_eval_type_global options then cFlag OR JS_EVAL_TYPE_GLOBAL E else cFlag);
          cFlag = (if js_eval_type_module options then cFlag OR JS_EVAL_TYPE_MODULE E else cFlag);
          cFlag = (if js_eval_flag_strict options then cFlag OR JS_EVAL_FLAG_STRICT E else cFlag);
          cFlag = (if js_eval_flag_strip options then cFlag OR JS_EVAL_FLAG_STRIP E else cFlag);
          cFlag = (if js_eval_flag_compile_only options
                   then cFlag OR JS_EVAL_FLAG_COMPILE_ONLY E else cFlag)
      in cFlag)"

text \<open>The flag word after the module detection of line 337.\<close>

definition Eval_cFlag :: "'s Engine \<Rightarrow> EvalOptions \<Rightarrow> string \<Rightarrow> 32 word" where
  "Eval_cFlag E options code =
     (let cFlag = options_cFlag E options
      in if JS_DetectModule E code \<noteq> 0 then cFlag OR JS_EVAL_TYPE_MODULE E else cFlag)"

text \<open>The engine call of \<^verbatim>\<open>Eval\<close> (lines 341 to 346), before the exception check.\<close>

definition Eval_call :: "'s Engine \<Rightarrow> string \<Rightarrow> EvalOption list \<Rightarrow> 's Context \<Rightarrow> JSValue \<times> 's Context" where
  "Eval_call E code opts ctx =
     (let options = apply_opts opts Eval_initial;
          cFlag = Eval_cFlag E options code
      in if await options
         then (let (v, ctx1) = call_JS_Eval E code (filename options) cFlag ctx
               in call_js_std_await E v ctx1)
         else call_JS_Eval E code (filename options) cFlag ctx)"

definition Eval ::
  "'s Engine \<Rightarrow> string \<Rightarrow> EvalOption list \<Rightarrow> 's Context \<Rightarrow> JSValue \<times> Error option \<times> 's Context" where
  "Eval E code opts ctx =
     (let (val, ctx1) = Eval_call E code opts ctx
      in if IsException val
         then (let (err, ctx2) = Exception E ctx1 in (val, err, ctx2))
         else (val, None, ctx1))"

definition EvalFile ::
  "'s Engine \<Rightarrow> string \<Rightarrow> EvalOption list \<Rightarrow> 's Context \<Rightarrow> JSValue \<times> Error option \<times> 's Context" where
  "EvalFile E filePath opts ctx =
     (case os_ReadFile ctx filePath of
        Inl err \<Rightarrow> (Null ctx, Some err, ctx)
      | Inr b \<Rightarrow> Eval E b (opts @ [EvalFileName filePath]) ctx)"

section \<open>Modules\<close>

definition LoadModule ::
  "'s Engine \<Rightarrow> string \<Rightarrow> string \<Rightarrow> 's Context \<Rightarrow> JSValue \<times> Error option \<times> 's Context" where
  "LoadModule E code moduleName ctx =
     (let cFlag = JS_EVAL_TYPE_MODULE E OR JS_EVAL_FLAG_COMPILE_ONLY E;
          (cVal, ctx1) = call_JS_Eval E code moduleName cFlag ctx
      in if ValueGetTag cVal \<noteq> JS_TAG_MODULE
         then (Null ctx1, Some (Errorf ''not a module''), ctx1)
         else (let (r, ctx2) = call_JS_ResolveModule E cVal ctx1
               in if r \<noteq> 0
                  then (let ctx3 = Value_Free E cVal ctx2
                        in (Null ctx3, Some (Errorf ''resolve module failed''), ctx3))
                  else (let ctx3 = call_js_module_set_import_meta E cVal ctx2;
                            (cVal', ctx4) = call_js_std_await E cVal ctx3
                        in (cVal', None, ctx4))))"

definition LoadModuleFile ::
  "'s Engine \<Rightarrow> string \<Rightarrow> string \<Rightarrow> 's Context \<Rightarrow> JSValue \<times> Error option \<times> 's Context" where
  "LoadModuleFile E filePath moduleName ctx =
     (case os_ReadFile ctx filePath of
        Inl err \<Rightarrow> (Null ctx, Some err, ctx)
      | Inr b \<Rightarrow> LoadModule E b moduleName ctx)"

text \<open>
  \<^verbatim>\<open>LoadModuleBytecode\<close>; the deferred \<^verbatim>\<open>js_free\<close> of the copied buffer runs on every
  return path, after the return values are computed.
\<close>

definition LoadModuleBytecode ::
  "'s Engine \<Rightarrow> byte list \<Rightarrow> 's Context \<Rightarrow> JSValue \<times> Error option \<times> 's Context" where
  "LoadModuleBytecode E buf ctx =
     (let (cVal, ctx1) = call_JS_ReadObject E buf ctx
      in if IsException cVal
         then (let (err, ctx2) = Exception E ctx1
               in (Null ctx2, err, call_js_free E (Some buf) ctx2))
         else if ValueGetTag cVal \<noteq> JS_TAG_MODULE
         then (Null ctx1, Some (Errorf ''not a module''), call_js_free E (Some buf) ctx1)
         else (let (r, ctx2) = call_JS_ResolveModule E cVal ctx1
               in if r \<noteq> 0
                  then (let ctx3 = Value_Free E cVal ctx2
                        in (Null ctx3, Some (Errorf ''resolve module failed''),
                            call_js_free E (Some buf) ctx3))
                  else (let ctx3 = call_js_module_set_import_meta E cVal ctx2;
                            (cVal', ctx4) = call_js_std_await E cVal ctx3
                        in (cVal', None, call_js_free E (Some buf) ctx4))))"

section \<open>Compile\<close>

text \<open>\<^verbatim>\<open>C.int(kSize)\<close>: the \<^verbatim>\<open>size_t\<close> is cut to 32 bits and read as signed.\<close>

definition C_int :: "64 word \<Rightarrow> int" where
  "C_int kSize = sint (ucast kSize :: 32 word)"

text \<open>
  \<^verbatim>\<open>C.GoBytes(ptr, n)\<close> reads \<open>n\<close> bytes at \<open>ptr\<close>; \<^verbatim>\<open>make([]byte, n)\<close> followed by
  \<^verbatim>\<open>copy\<close> gives a slice of length \<open>n\<close> that starts with the bytes read.
\<close>

definition GoBytes :: "byte list option \<Rightarrow> int \<Rightarrow> byte list" where
  "GoBytes ptr n = (case ptr of None \<Rightarrow> [] | Some bs \<Rightarrow> take (nat n) bs)"

definition make_copy :: "int \<Rightarrow> byte list \<Rightarrow> byte list" where
  "make_copy n src = take (nat n) src @ replicate (nat n - length src) 0"

definition Compile ::
  "'s Engine \<Rightarrow> string \<Rightarrow> EvalOption list \<Rightarrow> 's Context \<Rightarrow> byte list option \<times> Error option \<times> 's Context" where
  "Compile E code opts ctx =
     (let (val, err, ctx1) = Eval E code (opts @ [EvalFlagCompileOnly True]) ctx
      in case err of
           Some e \<Rightarrow> (None, Some e, ctx1)
         | None \<Rightarrow>
             (let ((ptr, kSize), ctx2) = call_JS_WriteObject E val ctx1
              in if C_int kSize \<le> 0
                 then (let (e, ctx3) = Exception E ctx2
                       in (None, e, Value_Free E val (call_js_free E ptr ctx3)))
                 else (let ret = make_copy (C_int kSize) (GoBytes ptr (C_int kSize))
                       in (Some ret, None, Value_Free E val (call_js_free E ptr ctx2)))))"

text \<open>The options \<^verbatim>\<open>CompileFile\<close> hands to \<^verbatim>\<open>Compile\<close> (lines 471 to 477).\<close>

definition CompileFile_opts :: "string \<Rightarrow> EvalOption list \<Rightarrow> EvalOption list" where
  "CompileFile_opts filePath opts =
     (let options = apply_opts opts EvalOptions_zero
      in if filename options = [] then opts @ [EvalFileName filePath] else opts)"

definition CompileFile ::
  "'s Engine \<Rightarrow> string \<Rightarrow> EvalOption list \<Rightarrow> 's Context \<Rightarrow> byte list option \<times> Error option \<times> 's Context" where
  "CompileFile E filePath opts ctx =
     (case os_ReadFile ctx filePath of
        Inl err \<Rightarrow> (None, Some err, ctx)
      | Inr b \<Rightarrow> Compile E b (CompileFile_opts filePath opts) ctx)"

definition CompileModule ::
  "'s Engine \<Rightarrow> string \<Rightarrow> string \<Rightarrow> EvalOption list \<Rightarrow> 's Context
     \<Rightarrow> byte list option \<times> Error option \<times> 's Context" where
  "CompileModule E filePath moduleName opts ctx =
     CompileFile E filePath (opts @ [EvalFileName moduleName]) ctx"

section \<open>Function and AsyncFunction\<close>

definition sync_wrapper :: string where
  "sync_wrapper =
     ''(proxy, fnHandler, ctx) => function() { return proxy.call(this, fnHandler, ctx, ...arguments); }''"


text \<open>
  \<^verbatim>\<open>Function\<close>. A closure is named by a number. The result is the panic or the wrapper
  Value, with the Context as the call leaves it: a panic of \<^verbatim>\<open>cgo.NewHandle\<close> or
  \<^verbatim>\<open>panic(err)\<close> keeps what was done before it, and the deferred \<^verbatim>\<open>val.Free()\<close> runs
  on the way out of both the panic and the normal return.
\<close>

definition Function :: "'s Engine \<Rightarrow> nat \<Rightarrow> 's Context \<Rightarrow> (Panic + JSValue) \<times> 's Context" where
  "Function E fn ctx =
     (let (shim, ctx1) =
            (case proxy ctx of
               None \<Rightarrow> (let (v, c) = call_JS_NewCFunction E InvokeProxy ctx
                         in (v, c\<lparr>proxy := Some v\<rparr>))
             | Some p \<Rightarrow> (p, ctx))
      in case NewHandle (SyncFn fn) ctx1 of
           (None, ctx2) \<Rightarrow> (Inl PanicHandleSpace, ctx2)
         | (Some h1, ctx2) \<Rightarrow>
             (case NewHandle ContextRef ctx2 of
                (None, ctx3) \<Rightarrow> (Inl PanicHandleSpace, ctx3)
              | (Some h2, ctx3) \<Rightarrow>
                  (let fnHandler = Int64 E h1;
                       ctxHandler = Int64 E h2;
                       args = [shim, fnHandler, ctxHandler];
                       (val, err, ctx4) = Eval E sync_wrapper [] ctx3
                   in case err of
                        Some e \<Rightarrow> (Inl (PanicError e), Value_Free E val ctx4)
                      | None \<Rightarrow>
                          (let (r, ctx5) = call_JS_Call E val (Null ctx4) args ctx4
                           in (Inr r, Value_Free E val ctx5)))))"






section \<open>Reading the trace\<close>

definition shim_creations :: "ProxyKind \<Rightarrow> Call list \<Rightarrow> nat" where
  "shim_creations k tr = length (filter (\<lambda>c. c = C_JS_NewCFunction k) tr)"

definition allocated :: "Call list \<Rightarrow> 64 word list" where
  "allocated tr = concat (map (\<lambda>c. case c of C_NewHandle h _ \<Rightarrow> [h] | _ \<Rightarrow> []) tr)"

definition shims_called :: "Call list \<Rightarrow> JSValue list" where
  "shims_called tr = concat (map (\<lambda>c. case c of C_JS_Call _ _ args \<Rightarrow> take 1 args | _ \<Rightarrow> []) tr)"

definition frees :: "Call list \<Rightarrow> JSValue list" where
  "frees tr = concat (map (\<lambda>c. case c of C_JS_FreeValue v \<Rightarrow> [v] | _ \<Rightarrow> []) tr)"

definition evals :: "Call list \<Rightarrow> (string \<times> string \<times> 32 word) list" where
  "evals tr = concat (map (\<lambda>c. case c of C_JS_Eval code f fl \<Rightarrow> [(code, f, fl)] | _ \<Rightarrow> []) tr)"


section \<open>A small engine for concrete runs\<close>

text \<open>
  An engine whose state is the pending exception. Source text starting with
  \<^verbatim>\<open>throw\<close> raises; compile-only evaluation yields a module or a bytecode function;
  anything else evaluates to an integer.
\<close>

definition demo_engine :: "JSValue option Engine" where
  "demo_engine =
     \<lparr>JS_EVAL_TYPE_GLOBAL = 0, JS_EVAL_TYPE_MODULE = 1, JS_EVAL_FLAG_STRICT = 8,
      JS_EVAL_FLAG_STRIP = 16, JS_EVAL_FLAG_COMPILE_ONLY = 32,
      JS_DetectModule = (\<lambda>code. if take 6 code = ''import'' \<or> take 6 code = ''export'' then 1 else 0),
      JS_Eval = (\<lambda>code fname cFlag s.
        if take 5 code = ''throw'' then (JSValue JS_TAG_EXCEPTION 0, Some (JSValue JS_TAG_OBJECT 7))
        else if cFlag AND 32 = 0 then (JSValue JS_TAG_INT (length code), s)
        else if cFlag AND 1 = 0 then (JSValue JS_TAG_FUNCTION_BYTECODE (length code), s)
        else (JSValue JS_TAG_MODULE (length code), s)),
      js_std_await = (\<lambda>v s. (v, s)),
      JS_GetException = (\<lambda>s. case s of None \<Rightarrow> (JSValue JS_TAG_UNINITIALIZED 0, None)
                                | Some v \<Rightarrow> (v, None)),
      Value_Error = (\<lambda>v s. if ValueGetTag v = JS_TAG_OBJECT then Some (JSError ''Error'' []) else None),
      JS_FreeValue = (\<lambda>v s. s),
      JS_FreeContext = (\<lambda>s. s),
      JS_GetGlobalObject = (\<lambda>s. (JSValue JS_TAG_OBJECT 0, s)),
      JS_NewCFunction = (\<lambda>k s. (JSValue JS_TAG_OBJECT (case k of InvokeProxy \<Rightarrow> 1 | InvokeAsyncProxy \<Rightarrow> 2), s)),
      JS_NewInt64 = (\<lambda>v. JSValue JS_TAG_INT (unat v)),
      JS_NewArrayBufferCopy = (\<lambda>bs s. (JSValue JS_TAG_OBJECT (3 + length bs), s)),
      JS_Call = (\<lambda>fn this args s. (JSValue JS_TAG_OBJECT 100, s)),
      JS_ResolveModule = (\<lambda>v s. (0, s)),
      js_module_set_import_meta = (\<lambda>v s. s),
      JS_ReadObject = (\<lambda>buf s. case buf of [] \<Rightarrow> (JSValue JS_TAG_EXCEPTION 0, Some (JSValue JS_TAG_OBJECT 8))
                                  | b # _ \<Rightarrow> (JSValue (if b = 1 then JS_TAG_MODULE else JS_TAG_FUNCTION_BYTECODE) 0, s)),
      JS_WriteObject = (\<lambda>v s. if ValueGetTag v = JS_TAG_MODULE then ((Some [1, 2, 3], 3), s)
                               else if ValueGetTag v = JS_TAG_FUNCTION_BYTECODE then ((Some [2, 3], 2), s)
                               else ((None, 0), Some (JSValue JS_TAG_OBJECT 9))),
      js_free = (\<lambda>p s. s)\<rparr>"

definition demo_ctx :: "JSValue option Context" where
  "demo_ctx =
     \<lparr>ref = None, globals = None, proxy = None, asyncProxy = None,
      handleIdx = 0, handles = Map.empty,
      os_ReadFile = (\<lambda>p. if p = ''main.js'' then Inr ''1+1'' else Inl (PathError p)),
      trace = []\<rparr>"

text \<open>
  Two variants of the small engine: one that leaves a thrown integer pending, which
  the conversion of the small engine turns into no error, and one whose serializer
  reports a buffer of a given size.
\<close>

definition int_throw_engine :: "JSValue option Engine" where
  "int_throw_engine =
     demo_engine\<lparr>JS_Eval := (\<lambda>code fname cFlag s.
        if take 5 code = ''throw''
        then (JSValue JS_TAG_EXCEPTION 0, Some (JSValue JS_TAG_INT 1))
        else JS_Eval demo_engine code fname cFlag s)\<rparr>"

definition sized_engine :: "64 word \<Rightarrow> JSValue option Engine" where
  "sized_engine kSize =
     demo_engine\<lparr>JS_WriteObject := (\<lambda>v s. ((Some (replicate (unat kSize) 0), kSize), s))\<rparr>"

section \<open>Notions used to state the properties\<close>

text \<open>The cached Values a Context holds, in the order \<^verbatim>\<open>Close\<close> visits them.\<close>

definition cached_values :: "'s Context \<Rightarrow> JSValue list" where
  "cached_values ctx =
     concat (map (case_option [] (\<lambda>v. [v])) [proxy ctx, asyncProxy ctx, globals ctx])"

text \<open>
  In engine state \<open>s\<close> an exception is pending that the bridge turns into an error:
  fetching it gives a value that \<^verbatim>\<open>Value.Error\<close> converts to a non-nil error.
\<close>

definition exception_pending :: "'s Engine \<Rightarrow> 's \<Rightarrow> bool" where
  "exception_pending E s = (case JS_GetException E s of (v, s') \<Rightarrow> Value_Error E v s' \<noteq> None)"

text \<open>
  The engine's side of the exception contract: an exception-tagged result of
  \<^verbatim>\<open>JS_Eval\<close> comes with a pending exception, and \<^verbatim>\<open>js_std_await\<close> keeps that
  property of its argument for its result.
\<close>

definition raises_with_pending :: "'s Engine \<Rightarrow> bool" where
  "raises_with_pending E =
     ((\<forall>code fname cFlag s. case JS_Eval E code fname cFlag s of
          (v, s') \<Rightarrow> IsException v \<longrightarrow> exception_pending E s')
      \<and> (\<forall>v s. (IsException v \<longrightarrow> exception_pending E s) \<longrightarrow>
           (case js_std_await E v s of (r, s') \<Rightarrow> IsException r \<longrightarrow> exception_pending E s')))"


section \<open>Basic facts about the trace and the flag word\<close>

lemma or_and_absorb: "(a OR m) AND m = (m :: 32 word)"
  by (rule bit_eqI) (auto simp: bit_and_iff bit_or_iff)

lemma trace_emit [simp]: "trace (emit c ctx) = trace ctx @ [c]"
  by (simp add: emit_def)

lemma ref_emit [simp]: "ref (emit c ctx) = ref ctx"
  by (simp add: emit_def)

lemma evals_append [simp]: "evals (xs @ ys) = evals xs @ evals ys"
  by (simp add: evals_def)

lemma evals_Nil [simp]: "evals [] = []"
  by (simp add: evals_def)

lemma evals_Cons [simp]:
  "evals (c # cs) = (case c of C_JS_Eval code f fl \<Rightarrow> [(code, f, fl)] | _ \<Rightarrow> []) @ evals cs"
  by (simp add: evals_def)

lemma frees_append [simp]: "frees (xs @ ys) = frees xs @ frees ys"
  by (simp add: frees_def)

lemma frees_Nil [simp]: "frees [] = []"
  by (simp add: frees_def)

lemma frees_Cons [simp]:
  "frees (c # cs) = (case c of C_JS_FreeValue v \<Rightarrow> [v] | _ \<Rightarrow> []) @ frees cs"
  by (simp add: frees_def)

lemma apply_opts_append: "apply_opts (opts @ [fn]) options = fn (apply_opts opts options)"
  by (induction opts arbitrary: options) simp_all

lemma evals_Exception: "evals (trace (snd (Exception E ctx))) = evals (trace ctx)"
  by (simp add: Exception_def call_JS_GetException_def Value_Free_def Let_def split: prod.splits)

lemma evals_Eval_call:
  "evals (trace (snd (Eval_call E code opts ctx))) =
     evals (trace ctx) @
       [(code, filename (apply_opts opts Eval_initial),
         Eval_cFlag E (apply_opts opts Eval_initial) code)]"
  by (simp add: Eval_call_def call_JS_Eval_def call_js_std_await_def Let_def split: prod.splits)

text \<open>\<^verbatim>\<open>Eval\<close> makes exactly one \<^verbatim>\<open>JS_Eval\<close> call, with the filename and flags of its options.\<close>

lemma evals_Eval:
  "evals (trace (snd (snd (Eval E code opts ctx)))) =
     evals (trace ctx) @
       [(code, filename (apply_opts opts Eval_initial),
         Eval_cFlag E (apply_opts opts Eval_initial) code)]"
proof (cases "Eval_call E code opts ctx")
  case (Pair val ctx1)
  with evals_Eval_call [of E code opts ctx] evals_Exception [of E ctx1]
  show ?thesis
    by (simp add: Eval_def Let_def split: prod.splits)
qed

section \<open>Evaluation options (C8)\<close>

text \<open>
  C8. With an empty option list \<^verbatim>\<open>Eval\<close> works with global scope on, module, strict,
  strip and compile-only off, filename \<^verbatim>\<open><input>\<close> and await off, so that it makes one
  plain \<^verbatim>\<open>JS_Eval\<close> call under that filename. Each of the seven mutators, applied after
  any option list, sets its own field and leaves the six others as the list alone
  left them.
\<close>

theorem EvalOptions_defaults_and_overrides:
  "apply_opts [] Eval_initial =
     \<lparr>js_eval_type_global = True, js_eval_type_module = False, js_eval_flag_strict = False,
      js_eval_flag_strip = False, js_eval_flag_compile_only = False,
      filename = ''<input>'', await = False\<rparr>
   \<and> Eval_call E code [] ctx =
       call_JS_Eval E code ''<input>''
         (if JS_DetectModule E code \<noteq> 0
          then JS_EVAL_TYPE_GLOBAL E OR JS_EVAL_TYPE_MODULE E else JS_EVAL_TYPE_GLOBAL E) ctx
   \<and> apply_opts (opts @ [EvalFlagGlobal b]) o0 =
       (let r = apply_opts opts o0 in
        \<lparr>js_eval_type_global = b, js_eval_type_module = js_eval_type_module r,
         js_eval_flag_strict = js_eval_flag_strict r, js_eval_flag_strip = js_eval_flag_strip r,
         js_eval_flag_compile_only = js_eval_flag_compile_only r,
         filename = filename r, await = await r\<rparr>)
   \<and> apply_opts (opts @ [EvalFlagModule b]) o0 =
       (let r = apply_opts opts o0 in
        \<lparr>js_eval_type_global = js_eval_type_global r, js_eval_type_module = b,
         js_eval_flag_strict = js_eval_flag_strict r, js_eval_flag_strip = js_eval_flag_strip r,
         js_eval_flag_compile_only = js_eval_flag_compile_only r,
         filename = filename r, await = await r\<rparr>)
   \<and> apply_opts (opts @ [EvalFlagStrict b]) o0 =
       (let r = apply_opts opts o0 in
        \<lparr>js_eval_type_global = js_eval_type_global r, js_eval_type_module = js_eval_type_module r,
         js_eval_flag_strict = b, js_eval_flag_strip = js_eval_flag_strip r,
         js_eval_flag_compile_only = js_eval_flag_compile_only r,
         filename = filename r, await = await r\<rparr>)
   \<and> apply_opts (opts @ [EvalFlagStrip b]) o0 =
       (let r = apply_opts opts o0 in
        \<lparr>js_eval_type_global = js_eval_type_global r, js_eval_type_module = js_eval_type_module r,
         js_eval_flag_strict = js_eval_flag_strict r, js_eval_flag_strip = b,
         js_eval_flag_compile_only = js_eval_flag_compile_only r,
         filename = filename r, await = await r\<rparr>)
   \<and> apply_opts (opts @ [EvalFlagCompileOnly b]) o0 =
       (let r = apply_opts opts o0 in
        \<lparr>js_eval_type_global = js_eval_type_global r, js_eval_type_module = js_eval_type_module r,
         js_eval_flag_strict = js_eval_flag_strict r, js_eval_flag_strip = js_eval_flag_strip r,
         js_eval_flag_compile_only = b,
         filename = filename r, await = await r\<rparr>)
   \<and> apply_opts (opts @ [EvalFileName f]) o0 =
       (let r = apply_opts opts o0 in
        \<lparr>js_eval_type_global = js_eval_type_global r, js_eval_type_module = js_eval_type_module r,
         js_eval_flag_strict = js_eval_flag_strict r, js_eval_flag_strip = js_eval_flag_strip r,
         js_eval_flag_compile_only = js_eval_flag_compile_only r,
         filename = f, await = await r\<rparr>)
   \<and> apply_opts (opts @ [EvalAwait b]) o0 =
       (let r = apply_opts opts o0 in
        \<lparr>js_eval_type_global = js_eval_type_global r, js_eval_type_module = js_eval_type_module r,
         js_eval_flag_strict = js_eval_flag_strict r, js_eval_flag_strip = js_eval_flag_strip r,
         js_eval_flag_compile_only = js_eval_flag_compile_only r,
         filename = filename r, await = b\<rparr>)"
proof -
  have d: "apply_opts [] Eval_initial =
     \<lparr>js_eval_type_global = True, js_eval_type_module = False, js_eval_flag_strict = False,
      js_eval_flag_strip = False, js_eval_flag_compile_only = False,
      filename = ''<input>'', await = False\<rparr>"
    by (simp add: Eval_initial_def)
  have e: "Eval_call E code [] ctx =
       call_JS_Eval E code ''<input>''
         (if JS_DetectModule E code \<noteq> 0
          then JS_EVAL_TYPE_GLOBAL E OR JS_EVAL_TYPE_MODULE E else JS_EVAL_TYPE_GLOBAL E) ctx"
    by (simp add: Eval_call_def Eval_cFlag_def options_cFlag_def Eval_initial_def)
  show ?thesis
    unfolding apply_opts_append Let_def
    using d e
    by (simp add: EvalFlagGlobal_def EvalFlagModule_def EvalFlagStrict_def EvalFlagStrip_def
        EvalFlagCompileOnly_def EvalFileName_def EvalAwait_def)
qed

section \<open>Module detection (C5)\<close>



section \<open>ArrayBuffer (C10)\<close>

text \<open>
  C10. \<^verbatim>\<open>ArrayBuffer\<close> indexes element 0 of its argument before anything else: on the
  empty slice it panics with an index-out-of-range error and returns no Value, and on
  every non-empty slice it returns the Value of the engine's buffer-copy call.
\<close>

theorem ArrayBuffer_nonempty_precondition:
  "ArrayBuffer E [] ctx = Inl PanicIndexOutOfRange
   \<and> (binaryData \<noteq> [] \<longrightarrow>
        ArrayBuffer E binaryData ctx = Inr (call_JS_NewArrayBufferCopy E binaryData ctx))"
  by (cases binaryData) (simp_all add: ArrayBuffer_def)

theorem ArrayBuffer_nonempty_precondition_witness:
  "ArrayBuffer demo_engine [] demo_ctx = Inl PanicIndexOutOfRange
   \<and> ([1, 2] :: byte list) \<noteq> []
   \<and> (\<exists>ctx'. ArrayBuffer demo_engine [1, 2] demo_ctx = Inr (JSValue JS_TAG_OBJECT 5, ctx'))"
  using ArrayBuffer_nonempty_precondition [of demo_engine demo_ctx "[1, 2]"]
  by (simp add: call_JS_NewArrayBufferCopy_def demo_engine_def)

section \<open>File read failures (C9)\<close>

text \<open>
  C9. When reading the file fails, \<^verbatim>\<open>EvalFile\<close> and \<^verbatim>\<open>LoadModuleFile\<close> return the null
  Value and \<^verbatim>\<open>CompileFile\<close> a nil buffer, each with the read error itself, and the
  Context is exactly as before: no foreign call was made.
\<close>

theorem read_failure_passes_through:
  assumes "os_ReadFile ctx filePath = Inl err"
  shows "EvalFile E filePath opts ctx = (JS_NULL, Some err, ctx)
         \<and> LoadModuleFile E filePath moduleName ctx = (JS_NULL, Some err, ctx)
         \<and> CompileFile E filePath opts ctx = (None, Some err, ctx)"
  using assms by (simp add: EvalFile_def LoadModuleFile_def CompileFile_def Null_def)

theorem read_failure_passes_through_witness:
  "os_ReadFile demo_ctx ''missing.js'' = Inl (PathError ''missing.js'')
   \<and> EvalFile demo_engine ''missing.js'' [EvalAwait True] demo_ctx
       = (JS_NULL, Some (PathError ''missing.js''), demo_ctx)
   \<and> LoadModuleFile demo_engine ''missing.js'' ''m'' demo_ctx
       = (JS_NULL, Some (PathError ''missing.js''), demo_ctx)
   \<and> CompileFile demo_engine ''missing.js'' [EvalAwait True] demo_ctx
       = (None, Some (PathError ''missing.js''), demo_ctx)
   \<and> trace demo_ctx = []"
proof -
  have h: "os_ReadFile demo_ctx ''missing.js'' = Inl (PathError ''missing.js'')"
    by (simp add: demo_ctx_def)
  show ?thesis
    using h read_failure_passes_through [OF h, of demo_engine "[EvalAwait True]" "''m''"]
    by (simp add: demo_ctx_def)
qed

section \<open>Close (C6)\<close>

text \<open>\<^verbatim>\<open>Globals\<close> asks the engine for the global object only while the cache is nil.\<close>

lemma Globals_lazy:
  "(globals ctx = Some g \<longrightarrow> Globals E ctx = (g, ctx))
   \<and> (globals ctx = None \<longrightarrow>
        globals (snd (Globals E ctx)) = Some (fst (Globals E ctx))
        \<and> trace (snd (Globals E ctx)) = trace ctx @ [C_JS_GetGlobalObject])"
  by (simp add: Globals_def call_JS_GetGlobalObject_def emit_def Let_def split: prod.splits)

text \<open>
  C6. \<^verbatim>\<open>Close\<close> releases, in the engine, each cached Value that exists (sync shim,
  async shim, global object, in this order) once, then releases the foreign context;
  a cache slot that is nil is not released. The trace records exactly these calls,
  and nothing else of the Context changes.
\<close>

theorem Close_frees_cached_once:
  "Close E ctx =
     ctx\<lparr>ref := JS_FreeContext E (fold (JS_FreeValue E) (cached_values ctx) (ref ctx)),
         trace := trace ctx @ map C_JS_FreeValue (cached_values ctx) @ [C_JS_FreeContext]\<rparr>
   \<and> frees (trace (Close E ctx)) = frees (trace ctx) @ cached_values ctx
   \<and> cached_values ctx =
       (case proxy ctx of None \<Rightarrow> [] | Some p \<Rightarrow> [p])
       @ (case asyncProxy ctx of None \<Rightarrow> [] | Some a \<Rightarrow> [a])
       @ (case globals ctx of None \<Rightarrow> [] | Some g \<Rightarrow> [g])"
  by (simp add: Close_def cached_values_def call_JS_FreeContext_def Value_Free_def emit_def Let_def
      split: option.splits)

section \<open>Eval and the exception bridge (C2)\<close>

lemma Eval_call_pending:
  assumes "raises_with_pending E" and "Eval_call E code opts ctx = (val, ctx1)"
    and "IsException val"
  shows "exception_pending E (ref ctx1)"
proof -
  let ?o = "apply_opts opts Eval_initial"
  let ?f = "Eval_cFlag E ?o code"
  obtain v s where js: "JS_Eval E code (filename ?o) ?f (ref ctx) = (v, s)"
    by (cases "JS_Eval E code (filename ?o) ?f (ref ctx)")
  from assms(1) js have p1: "IsException v \<longrightarrow> exception_pending E s"
    unfolding raises_with_pending_def by (metis (mono_tags, lifting) case_prod_conv)
  show ?thesis
  proof (cases "await ?o")
    case False
    with assms(2,3) js p1 show ?thesis
      by (auto simp: Eval_call_def call_JS_Eval_def Let_def)
  next
    case True
    obtain r s' where aw: "js_std_await E v s = (r, s')"
      by (cases "js_std_await E v s")
    from assms(1) p1 aw have "IsException r \<longrightarrow> exception_pending E s'"
      unfolding raises_with_pending_def by (metis (mono_tags, lifting) case_prod_conv)
    with True assms(2,3) js aw show ?thesis
      by (auto simp: Eval_call_def call_JS_Eval_def call_js_std_await_def Let_def)
  qed
qed

lemma Exception_error:
  "fst (Exception E ctx) = (case JS_GetException E (ref ctx) of (v, s') \<Rightarrow> Value_Error E v s')"
  by (simp add: Exception_def call_JS_GetException_def Let_def split: prod.splits)

text \<open>
  Over an engine that keeps the exception contract the error is non-nil exactly when
  the Value is exception-tagged.
\<close>

lemma Eval_error_nonnil_under_contract:
  assumes "raises_with_pending E"
    and "Eval E code opts ctx = (val, err, ctx')"
  shows "val = fst (Eval_call E code opts ctx)
         \<and> (err \<noteq> None \<longleftrightarrow> IsException val)
         \<and> (IsException val \<longrightarrow> (err, ctx') = Exception E (snd (Eval_call E code opts ctx)))
         \<and> (\<not> IsException val \<longrightarrow> err = None \<and> ctx' = snd (Eval_call E code opts ctx))"
proof (cases "Eval_call E code opts ctx")
  case (Pair v ctx1)
  show ?thesis
  proof (cases "IsException v")
    case False
    with Pair assms(2) show ?thesis
      by (auto simp: Eval_def Let_def)
  next
    case True
    from Eval_call_pending [OF assms(1) Pair True]
    have "fst (Exception E ctx1) \<noteq> None"
      by (auto simp: Exception_error exception_pending_def split: prod.splits)
    with True Pair assms(2) show ?thesis
      by (auto simp: Eval_def Let_def split: prod.splits)
  qed
qed

text \<open>
  C2. \<^verbatim>\<open>Eval\<close> returns the Value of its engine call in every case. A non-nil error
  comes only with an exception-tagged Value. With an exception-tagged Value the
  error is the one \<^verbatim>\<open>Exception\<close> produces right after the engine call, that is the
  conversion of the fetched exception value, which is then released; that error may
  be nil. With any other Value the error is nil.
\<close>

theorem Eval_returns_bridge_error:
  assumes "Eval E code opts ctx = (val, err, ctx')"
  shows "val = fst (Eval_call E code opts ctx)
         \<and> (err \<noteq> None \<longrightarrow> IsException val)
         \<and> (IsException val \<longrightarrow>
               (err, ctx') = Exception E (snd (Eval_call E code opts ctx))
               \<and> (case JS_GetException E (ref (snd (Eval_call E code opts ctx))) of
                    (v, s) \<Rightarrow> err = Value_Error E v s
                      \<and> trace ctx' = trace (snd (Eval_call E code opts ctx))
                                       @ [C_JS_GetException, C_JS_FreeValue v]))
         \<and> (\<not> IsException val \<longrightarrow> err = None \<and> ctx' = snd (Eval_call E code opts ctx))"
proof (cases "Eval_call E code opts ctx")
  case (Pair v ctx1)
  show ?thesis
  proof (cases "IsException v")
    case False
    with Pair assms show ?thesis
      by (auto simp: Eval_def Let_def)
  next
    case True
    with Pair assms have a: "val = v" and b: "(err, ctx') = Exception E ctx1"
      by (auto simp: Eval_def Let_def split: prod.splits)
    from b have c: "case JS_GetException E (ref ctx1) of
                 (v, s) \<Rightarrow> err = Value_Error E v s
                   \<and> trace ctx' = trace ctx1 @ [C_JS_GetException, C_JS_FreeValue v]"
      by (auto simp: Exception_def call_JS_GetException_def Value_Free_def emit_def Let_def
          split: prod.splits)
    from a b c True Pair show ?thesis
      by simp
  qed
qed

theorem Eval_returns_bridge_error_witness:
  "Eval demo_engine ''throw new Error(1)'' [] demo_ctx =
       (JSValue JS_TAG_EXCEPTION 0, Some (JSError ''Error'' []),
        demo_ctx\<lparr>trace := [C_JS_Eval ''throw new Error(1)'' ''<input>'' 0, C_JS_GetException,
                           C_JS_FreeValue (JSValue JS_TAG_OBJECT 7)]\<rparr>)
   \<and> IsException (JSValue JS_TAG_EXCEPTION 0)
   \<and> (Some (JSError ''Error'' []),
        demo_ctx\<lparr>trace := [C_JS_Eval ''throw new Error(1)'' ''<input>'' 0, C_JS_GetException,
                           C_JS_FreeValue (JSValue JS_TAG_OBJECT 7)]\<rparr>)
       = Exception demo_engine (snd (Eval_call demo_engine ''throw new Error(1)'' [] demo_ctx))"
proof -
  have r: "Eval demo_engine ''throw new Error(1)'' [] demo_ctx =
       (JSValue JS_TAG_EXCEPTION 0, Some (JSError ''Error'' []),
        demo_ctx\<lparr>trace := [C_JS_Eval ''throw new Error(1)'' ''<input>'' 0, C_JS_GetException,
                           C_JS_FreeValue (JSValue JS_TAG_OBJECT 7)]\<rparr>)"
    by (simp add: Eval_def Eval_call_def Eval_cFlag_def options_cFlag_def Eval_initial_def
        call_JS_Eval_def Exception_def call_JS_GetException_def Value_Free_def emit_def
        IsException_def demo_engine_def demo_ctx_def Let_def)
  have x: "IsException (JSValue JS_TAG_EXCEPTION 0)"
    by (simp add: IsException_def)
  from Eval_returns_bridge_error [OF r] x r show ?thesis
    by blast
qed

text \<open>
  An exception-tagged Value can come with a nil error: on the engine that leaves a
  thrown integer pending, the conversion yields no error.
\<close>

theorem Eval_exception_with_nil_error_counterexample:
  "Eval int_throw_engine ''throw 1'' [] demo_ctx =
     (JSValue JS_TAG_EXCEPTION 0, None,
      demo_ctx\<lparr>trace := [C_JS_Eval ''throw 1'' ''<input>'' 0, C_JS_GetException,
                         C_JS_FreeValue (JSValue JS_TAG_INT 1)]\<rparr>)
   \<and> IsException (JSValue JS_TAG_EXCEPTION 0)"
  by (simp add: Eval_def Eval_call_def Eval_cFlag_def options_cFlag_def Eval_initial_def
      call_JS_Eval_def Exception_def call_JS_GetException_def Value_Free_def emit_def
      IsException_def int_throw_engine_def demo_engine_def demo_ctx_def Let_def)

section \<open>LoadModule and exception-tagged values (C1)\<close>

text \<open>
  The bytecode path checks for an exception first and reports it through
  \<^verbatim>\<open>Exception\<close>.
\<close>

lemma LoadModuleBytecode_exception:
  assumes "JS_ReadObject E buf (ref ctx) = (cVal, s)" and "IsException cVal"
  shows "fst (snd (LoadModuleBytecode E buf ctx)) =
           fst (Exception E (ctx\<lparr>ref := s, trace := trace ctx @ [C_JS_ReadObject buf]\<rparr>))"
  using assms
  by (simp add: LoadModuleBytecode_def call_JS_ReadObject_def emit_def Let_def split: prod.splits)

text \<open>
  C1. \<^verbatim>\<open>LoadModule\<close> has no such check. When its compile step yields an
  exception-tagged value, it returns the null Value with the fixed error
  \<^verbatim>\<open>not a module\<close>; the only foreign call made is that \<^verbatim>\<open>JS_Eval\<close>, so the pending
  exception is never fetched.
\<close>

theorem LoadModule_exception_reported_as_not_a_module:
  assumes "JS_Eval E code moduleName (JS_EVAL_TYPE_MODULE E OR JS_EVAL_FLAG_COMPILE_ONLY E) (ref ctx)
             = (cVal, s)"
    and "IsException cVal"
  shows "LoadModule E code moduleName ctx =
           (JS_NULL, Some (Errorf ''not a module''),
            ctx\<lparr>ref := s,
                trace := trace ctx @
                  [C_JS_Eval code moduleName (JS_EVAL_TYPE_MODULE E OR JS_EVAL_FLAG_COMPILE_ONLY E)]\<rparr>)"
  using assms
  by (simp add: LoadModule_def call_JS_Eval_def emit_def IsException_def Null_def Let_def)

theorem LoadModule_exception_reported_as_not_a_module_witness:
  "JS_Eval demo_engine ''throw 1'' ''m.js''
       (JS_EVAL_TYPE_MODULE demo_engine OR JS_EVAL_FLAG_COMPILE_ONLY demo_engine) (ref demo_ctx)
     = (JSValue JS_TAG_EXCEPTION 0, Some (JSValue JS_TAG_OBJECT 7))
   \<and> IsException (JSValue JS_TAG_EXCEPTION 0)
   \<and> LoadModule demo_engine ''throw 1'' ''m.js'' demo_ctx =
       (JS_NULL, Some (Errorf ''not a module''),
        demo_ctx\<lparr>ref := Some (JSValue JS_TAG_OBJECT 7), trace := [C_JS_Eval ''throw 1'' ''m.js'' 33]\<rparr>)"
proof -
  have h1: "JS_Eval demo_engine ''throw 1'' ''m.js''
       (JS_EVAL_TYPE_MODULE demo_engine OR JS_EVAL_FLAG_COMPILE_ONLY demo_engine) (ref demo_ctx)
     = (JSValue JS_TAG_EXCEPTION 0, Some (JSValue JS_TAG_OBJECT 7))"
    by (simp add: demo_engine_def)
  have h2: "IsException (JSValue JS_TAG_EXCEPTION 0)"
    by (simp add: IsException_def)
  show ?thesis
    using h1 h2 LoadModule_exception_reported_as_not_a_module [OF h1 h2]
    by (simp add: demo_engine_def demo_ctx_def)
qed

section \<open>Compile (C7)\<close>

lemma or_or_and_absorb: "((a OR m) OR b) AND m = (m :: 32 word)"
  by (rule bit_eqI) (auto simp: bit_and_iff bit_or_iff)

lemma uint_lt_of_unat_lt: "unat (kSize::64 word) < 2 ^ 31 \<Longrightarrow> uint kSize < 2 ^ 31"
  by (metis of_nat_less_iff of_nat_numeral of_nat_power uint_nat)

lemma C_int_small:
  assumes "unat kSize < 2 ^ 31"
  shows "C_int kSize = int (unat kSize)"
proof -
  have a: "uint kSize < 2 ^ 31"
    using assms by (rule uint_lt_of_unat_lt)
  have c: "0 \<le> uint kSize"
    by simp
  have "uint (ucast kSize :: 32 word) = take_bit 32 (uint kSize)"
    by (simp add: unsigned_ucast_eq)
  also have "\<dots> = uint kSize"
    using a by (intro take_bit_int_eq_self) auto
  finally have b: "uint (ucast kSize :: 32 word) = uint kSize" .
  have "sint (ucast kSize :: 32 word) = signed_take_bit 31 (uint (ucast kSize :: 32 word))"
    by (simp add: sint_uint)
  also have "\<dots> = uint kSize"
    unfolding b using a c by (intro signed_take_bit_int_eq_self) linarith+
  finally show ?thesis
    by (simp add: C_int_def)
qed

text \<open>Beyond that range the conversion cuts the size or makes it negative.\<close>

lemma C_int_narrows: "C_int (2 ^ 32 + 5) = 5 \<and> C_int (2 ^ 31) < 0"
  by (simp add: C_int_def)

lemma length_make_copy: "0 \<le> n \<Longrightarrow> int (length (make_copy n src)) = n"
  by (simp add: make_copy_def)

lemma evals_Value_Free [simp]: "evals (trace (Value_Free E v ctx)) = evals (trace ctx)"
  by (simp add: Value_Free_def)

lemma evals_call_js_free [simp]: "evals (trace (call_js_free E p ctx)) = evals (trace ctx)"
  by (simp add: call_js_free_def)

lemma evals_call_JS_WriteObject [simp]:
  "evals (trace (snd (call_JS_WriteObject E v ctx))) = evals (trace ctx)"
  by (simp add: call_JS_WriteObject_def split: prod.splits)

lemma evals_Compile:
  "evals (trace (snd (snd (Compile E code opts ctx)))) =
     evals (trace ctx) @
       [(code, filename (apply_opts (opts @ [EvalFlagCompileOnly True]) Eval_initial),
         Eval_cFlag E (apply_opts (opts @ [EvalFlagCompileOnly True]) Eval_initial) code)]"
proof -
  let ?opts = "opts @ [EvalFlagCompileOnly True]"
  obtain val e1 ctx1 where ev: "Eval E code ?opts ctx = (val, e1, ctx1)"
    by (cases "Eval E code ?opts ctx") auto
  from evals_Eval [of E code ?opts ctx] ev
  have t1: "evals (trace ctx1) = evals (trace ctx) @
       [(code, filename (apply_opts ?opts Eval_initial), Eval_cFlag E (apply_opts ?opts Eval_initial) code)]"
    by simp
  obtain ptr kSize ctx2 where wr: "call_JS_WriteObject E val ctx1 = ((ptr, kSize), ctx2)"
    by (cases "call_JS_WriteObject E val ctx1") auto
  from evals_call_JS_WriteObject [of E val ctx1] wr
  have t2: "evals (trace ctx2) = evals (trace ctx1)" by simp
  obtain e ctx3 where ex: "Exception E ctx2 = (e, ctx3)"
    by (cases "Exception E ctx2")
  from evals_Exception [of E ctx2] ex
  have t3: "evals (trace ctx3) = evals (trace ctx2)" by simp
  show ?thesis
    using ev wr ex t1 t2 t3
    by (simp add: Compile_def Let_def split: option.splits)
qed


lemma apply_opts_app: "apply_opts (xs @ ys) options = apply_opts ys (apply_opts xs options)"
  by (induction xs arbitrary: options) simp_all

lemma compile_only_forced:
  "Eval_cFlag E (apply_opts (opts @ [EvalFlagCompileOnly True]) Eval_initial) code
     AND JS_EVAL_FLAG_COMPILE_ONLY E = JS_EVAL_FLAG_COMPILE_ONLY E"
  by (simp add: apply_opts_append EvalFlagCompileOnly_def Eval_cFlag_def options_cFlag_def Let_def
      or_and_absorb or_or_and_absorb)

text \<open>
  What \<^verbatim>\<open>Compile\<close> returns in terms of the size as \<^verbatim>\<open>C.int\<close> reads it, for every
  size the serializer may report.
\<close>

lemma Compile_by_C_int:
  assumes "Compile E code opts ctx = (ret, err, ctx')"
  shows "(\<exists>cFlag. evals (trace ctx') =
             evals (trace ctx) @ [(code, filename (apply_opts opts Eval_initial), cFlag)]
           \<and> cFlag AND JS_EVAL_FLAG_COMPILE_ONLY E = JS_EVAL_FLAG_COMPILE_ONLY E)
         \<and> (case Eval E code (opts @ [EvalFlagCompileOnly True]) ctx of
              (val, e1, ctx1) \<Rightarrow>
                (case e1 of
                   Some e \<Rightarrow> ret = None \<and> err = Some e
                 | None \<Rightarrow>
                     (case call_JS_WriteObject E val ctx1 of
                        ((ptr, kSize), ctx2) \<Rightarrow>
                          if C_int kSize \<le> 0
                          then ret = None \<and> err = fst (Exception E ctx2)
                          else err = None
                               \<and> (\<exists>bs. ret = Some bs \<and> int (length bs) = C_int kSize
                                      \<and> (unat kSize < 2 ^ 31 \<longrightarrow> length bs = unat kSize)))))"
proof -
  let ?opts = "opts @ [EvalFlagCompileOnly True]"
  have fl: "filename (apply_opts ?opts Eval_initial) = filename (apply_opts opts Eval_initial)"
    by (simp add: apply_opts_append EvalFlagCompileOnly_def)
  from evals_Compile [of E code opts ctx] assms
  have p1: "\<exists>cFlag. evals (trace ctx') =
             evals (trace ctx) @ [(code, filename (apply_opts opts Eval_initial), cFlag)]
           \<and> cFlag AND JS_EVAL_FLAG_COMPILE_ONLY E = JS_EVAL_FLAG_COMPILE_ONLY E"
    by (simp add: fl compile_only_forced)
  obtain val e1 ctx1 where ev: "Eval E code ?opts ctx = (val, e1, ctx1)"
    by (cases "Eval E code ?opts ctx") auto
  obtain ptr kSize ctx2 where wr: "call_JS_WriteObject E val ctx1 = ((ptr, kSize), ctx2)"
    by (cases "call_JS_WriteObject E val ctx1") auto
  let ?bs = "make_copy (C_int kSize) (GoBytes ptr (C_int kSize))"
  have len1: "int (length ?bs) = C_int kSize" if "0 < C_int kSize"
    using that length_make_copy [of "C_int kSize" "GoBytes ptr (C_int kSize)"] by simp
  have len2: "length ?bs = unat kSize" if "0 < C_int kSize" and "unat kSize < 2 ^ 31"
  proof -
    from len1 [OF that(1)] C_int_small [OF that(2)]
    have "int (length ?bs) = int (unat kSize)"
      by (simp only:)
    then show ?thesis
      by (simp only: of_nat_eq_iff)
  qed
  have p2: "case e1 of
              Some e \<Rightarrow> ret = None \<and> err = Some e
            | None \<Rightarrow>
                if C_int kSize \<le> 0
                then ret = None \<and> err = fst (Exception E ctx2)
                else err = None
                     \<and> (\<exists>bs. ret = Some bs \<and> int (length bs) = C_int kSize
                            \<and> (unat kSize < 2 ^ 31 \<longrightarrow> length bs = unat kSize))"
  proof (cases e1)
    case (Some e)
    with assms ev have "ret = None \<and> err = Some e"
      by (auto simp: Compile_def)
    with Some show ?thesis
      by (simp only: option.case)
  next
    case None
    show ?thesis
    proof (cases "C_int kSize \<le> 0")
      case True
      with None assms ev wr have "ret = None \<and> err = fst (Exception E ctx2)"
        by (auto simp: Compile_def Let_def split: prod.splits)
      with True None show ?thesis
        by (simp only: option.case if_True)
    next
      case False
      then have pos: "0 < C_int kSize"
        by simp
      have "int (length ?bs) = C_int kSize \<and> (unat kSize < 2 ^ 31 \<longrightarrow> length ?bs = unat kSize)"
        using len1 [OF pos] len2 [OF pos] by blast
      moreover have "ret = Some ?bs \<and> err = None"
        using False None assms ev wr by (simp add: Compile_def Let_def)
      ultimately show ?thesis
        using False None by (simp only: option.case if_False) blast
    qed
  qed
  from p2 ev wr
  have "case Eval E code ?opts ctx of
          (val, e1, ctx1) \<Rightarrow>
            (case e1 of
               Some e \<Rightarrow> ret = None \<and> err = Some e
             | None \<Rightarrow>
                 (case call_JS_WriteObject E val ctx1 of
                    ((ptr, kSize), ctx2) \<Rightarrow>
                      if C_int kSize \<le> 0
                      then ret = None \<and> err = fst (Exception E ctx2)
                      else err = None
                           \<and> (\<exists>bs. ret = Some bs \<and> int (length bs) = C_int kSize
                                  \<and> (unat kSize < 2 ^ 31 \<longrightarrow> length bs = unat kSize))))"
    by (cases e1) simp_all
  with p1 show ?thesis
    by (rule conjI)
qed

lemma Compile_result:
  assumes "Eval E code (opts @ [EvalFlagCompileOnly True]) ctx = (val, e1, ctx1)"
  shows "e1 = Some e \<Longrightarrow> Compile E code opts ctx = (None, Some e, ctx1)"
    and "e1 = None \<Longrightarrow> call_JS_WriteObject E val ctx1 = ((ptr, kSize), ctx2) \<Longrightarrow> 0 < C_int kSize
           \<Longrightarrow> fst (Compile E code opts ctx) =
                 Some (make_copy (C_int kSize) (GoBytes ptr (C_int kSize)))"
    and "e1 = None \<Longrightarrow> call_JS_WriteObject E val ctx1 = ((ptr, kSize), ctx2) \<Longrightarrow> 0 < C_int kSize
           \<Longrightarrow> fst (snd (Compile E code opts ctx)) = None"
    and "e1 = None \<Longrightarrow> call_JS_WriteObject E val ctx1 = ((ptr, kSize), ctx2) \<Longrightarrow> C_int kSize \<le> 0
           \<Longrightarrow> fst (Compile E code opts ctx) = None
               \<and> fst (snd (Compile E code opts ctx)) = fst (Exception E ctx2)"
  using assms by (simp_all add: Compile_def Let_def split: prod.splits)

lemma make_copy_whole: "make_copy (int (length buf)) (GoBytes (Some buf) (int (length buf))) = buf"
  by (simp add: make_copy_def GoBytes_def)

lemma C_int_zero_iff:
  assumes "unat kSize < 2 ^ 31"
  shows "C_int kSize \<le> 0 \<longleftrightarrow> kSize = 0"
  using C_int_small [OF assms] by (simp add: uint_0_iff)

text \<open>
  C7. \<^verbatim>\<open>Compile\<close> makes one \<^verbatim>\<open>JS_Eval\<close> call, whose flag word has every bit of the
  compile-only constant set. If that evaluation reports an error, \<^verbatim>\<open>Compile\<close>
  returns a nil buffer with that error and serializes nothing. Otherwise it
  serializes the value, and for a serialized size below \<open>2^31\<close>: a size of zero
  gives a nil buffer with the error of \<^verbatim>\<open>Exception\<close>, and any other size gives a
  nil error and a byte slice of exactly that size, equal to the written buffer.
\<close>

theorem Compile_forces_compile_only_and_returns_buffer:
  assumes "Compile E code opts ctx = (ret, err, ctx')"
  shows "(\<exists>cFlag. evals (trace ctx') =
             evals (trace ctx) @ [(code, filename (apply_opts opts Eval_initial), cFlag)]
           \<and> cFlag AND JS_EVAL_FLAG_COMPILE_ONLY E = JS_EVAL_FLAG_COMPILE_ONLY E)
         \<and> (case Eval E code (opts @ [EvalFlagCompileOnly True]) ctx of
              (val, e1, ctx1) \<Rightarrow>
                (case e1 of
                   Some e \<Rightarrow> ret = None \<and> err = Some e \<and> ctx' = ctx1
                 | None \<Rightarrow>
                     (case call_JS_WriteObject E val ctx1 of
                        ((ptr, kSize), ctx2) \<Rightarrow>
                          unat kSize < 2 ^ 31 \<longrightarrow>
                            (if kSize = 0
                             then ret = None \<and> err = fst (Exception E ctx2)
                             else err = None
                                  \<and> (\<exists>bs. ret = Some bs \<and> length bs = unat kSize
                                         \<and> (\<forall>buf. ptr = Some buf \<and> length buf = unat kSize
                                                \<longrightarrow> bs = buf))))))"
proof -
  let ?opts = "opts @ [EvalFlagCompileOnly True]"
  have fl: "filename (apply_opts ?opts Eval_initial) = filename (apply_opts opts Eval_initial)"
    by (simp add: apply_opts_append EvalFlagCompileOnly_def)
  from evals_Compile [of E code opts ctx] assms
  have p1: "\<exists>cFlag. evals (trace ctx') =
             evals (trace ctx) @ [(code, filename (apply_opts opts Eval_initial), cFlag)]
           \<and> cFlag AND JS_EVAL_FLAG_COMPILE_ONLY E = JS_EVAL_FLAG_COMPILE_ONLY E"
    by (simp add: fl compile_only_forced)
  obtain val e1 ctx1 where ev: "Eval E code ?opts ctx = (val, e1, ctx1)"
    by (cases "Eval E code ?opts ctx") auto
  obtain ptr kSize ctx2 where wr: "call_JS_WriteObject E val ctx1 = ((ptr, kSize), ctx2)"
    by (cases "call_JS_WriteObject E val ctx1") auto
  note res = Compile_result [OF ev]
  have p2: "case e1 of
              Some e \<Rightarrow> ret = None \<and> err = Some e \<and> ctx' = ctx1
            | None \<Rightarrow>
                unat kSize < 2 ^ 31 \<longrightarrow>
                  (if kSize = 0
                   then ret = None \<and> err = fst (Exception E ctx2)
                   else err = None
                        \<and> (\<exists>bs. ret = Some bs \<and> length bs = unat kSize
                               \<and> (\<forall>buf. ptr = Some buf \<and> length buf = unat kSize \<longrightarrow> bs = buf)))"
  proof (cases e1)
    case (Some e)
    from res(1) [OF Some] assms have "ret = None \<and> err = Some e \<and> ctx' = ctx1"
      by simp
    with Some show ?thesis
      by (simp only: option.case)
  next
    case None
    have "if kSize = 0
          then ret = None \<and> err = fst (Exception E ctx2)
          else err = None
               \<and> (\<exists>bs. ret = Some bs \<and> length bs = unat kSize
                      \<and> (\<forall>buf. ptr = Some buf \<and> length buf = unat kSize \<longrightarrow> bs = buf))"
      if small: "unat kSize < 2 ^ 31"
    proof (cases "kSize = 0")
      case True
      with C_int_zero_iff [OF small] have "C_int kSize \<le> 0"
        by simp
      from res(4) [OF None wr this] assms True show ?thesis
        by simp
    next
      case False
      with C_int_zero_iff [OF small] have pos: "0 < C_int kSize"
        by simp
      let ?bs = "make_copy (C_int kSize) (GoBytes ptr (C_int kSize))"
      from res(2,3) [OF None wr pos] assms have r: "ret = Some ?bs" "err = None"
        by simp_all
      have "int (length ?bs) = int (unat kSize)"
        using length_make_copy [of "C_int kSize" "GoBytes ptr (C_int kSize)"] pos
          C_int_small [OF small] by simp
      then have len: "length ?bs = unat kSize"
        by (simp only: of_nat_eq_iff)
      have whole: "?bs = buf" if "ptr = Some buf" and "length buf = unat kSize" for buf
        using that C_int_small [OF small] make_copy_whole [of buf] by simp
      from r len whole False show ?thesis
        by auto
    qed
    with None show ?thesis
      by (simp only: option.case) blast
  qed
  from p2 ev wr
  have "case Eval E code ?opts ctx of
              (val, e1, ctx1) \<Rightarrow>
                (case e1 of
                   Some e \<Rightarrow> ret = None \<and> err = Some e \<and> ctx' = ctx1
                 | None \<Rightarrow>
                     (case call_JS_WriteObject E val ctx1 of
                        ((ptr, kSize), ctx2) \<Rightarrow>
                          unat kSize < 2 ^ 31 \<longrightarrow>
                            (if kSize = 0
                             then ret = None \<and> err = fst (Exception E ctx2)
                             else err = None
                                  \<and> (\<exists>bs. ret = Some bs \<and> length bs = unat kSize
                                         \<and> (\<forall>buf. ptr = Some buf \<and> length buf = unat kSize
                                                \<longrightarrow> bs = buf)))))"
    by (cases e1) simp_all
  with p1 show ?thesis
    by (rule conjI)
qed

theorem Compile_forces_compile_only_and_returns_buffer_witness:
  "Compile demo_engine ''1+1'' [] demo_ctx =
     (Some [2, 3], None,
      demo_ctx\<lparr>trace := [C_JS_Eval ''1+1'' ''<input>'' 32,
                         C_JS_WriteObject (JSValue JS_TAG_FUNCTION_BYTECODE 3),
                         C_js_free (Some [2, 3]),
                         C_JS_FreeValue (JSValue JS_TAG_FUNCTION_BYTECODE 3)]\<rparr>)
   \<and> unat (2 :: 64 word) < 2 ^ 31
   \<and> (\<exists>bs. Some [2, 3 :: byte] = Some bs \<and> length bs = unat (2 :: 64 word) \<and> bs = [2, 3])"
proof -
  have r: "Compile demo_engine ''1+1'' [] demo_ctx =
     (Some [2, 3], None,
      demo_ctx\<lparr>trace := [C_JS_Eval ''1+1'' ''<input>'' 32,
                         C_JS_WriteObject (JSValue JS_TAG_FUNCTION_BYTECODE 3),
                         C_js_free (Some [2, 3]),
                         C_JS_FreeValue (JSValue JS_TAG_FUNCTION_BYTECODE 3)]\<rparr>)"
    by (simp add: Compile_def Eval_def Eval_call_def Eval_cFlag_def options_cFlag_def
        Eval_initial_def EvalFlagCompileOnly_def call_JS_Eval_def call_JS_WriteObject_def
        call_js_free_def Value_Free_def emit_def IsException_def C_int_def GoBytes_def
        make_copy_def demo_engine_def demo_ctx_def Let_def)
  have e: "Eval demo_engine ''1+1'' ([] @ [EvalFlagCompileOnly True]) demo_ctx =
     (JSValue JS_TAG_FUNCTION_BYTECODE 3, None,
      demo_ctx\<lparr>trace := [C_JS_Eval ''1+1'' ''<input>'' 32]\<rparr>)"
    by (simp add: Eval_def Eval_call_def Eval_cFlag_def options_cFlag_def
        Eval_initial_def EvalFlagCompileOnly_def call_JS_Eval_def emit_def IsException_def
        demo_engine_def demo_ctx_def Let_def)
  have w: "call_JS_WriteObject demo_engine (JSValue JS_TAG_FUNCTION_BYTECODE 3)
             (demo_ctx\<lparr>trace := [C_JS_Eval ''1+1'' ''<input>'' 32]\<rparr>) =
           ((Some [2, 3], 2),
            demo_ctx\<lparr>trace := [C_JS_Eval ''1+1'' ''<input>'' 32,
                         C_JS_WriteObject (JSValue JS_TAG_FUNCTION_BYTECODE 3)]\<rparr>)"
    by (simp add: call_JS_WriteObject_def emit_def demo_engine_def demo_ctx_def)
  have s: "unat (2 :: 64 word) < 2 ^ 31"
    by simp
  from Compile_forces_compile_only_and_returns_buffer [OF r]
  have "\<exists>bs. Some [2, 3 :: byte] = Some bs \<and> length bs = unat (2 :: 64 word) \<and> bs = [2, 3]"
    by (simp add: e w)
  with r s show ?thesis
    by blast
qed

text \<open>
  Outside these bounds the result differs: a serializer reporting \<open>2^32 + 5\<close> bytes
  makes \<^verbatim>\<open>Compile\<close> return five bytes with a nil error, and a source that fails to
  evaluate is never serialized.
\<close>

theorem Compile_size_and_early_return_counterexample:
  "JS_WriteObject (sized_engine (2 ^ 32 + 5)) (JSValue JS_TAG_FUNCTION_BYTECODE 3) None
     = ((Some (replicate 4294967301 0), 4294967301), None)
   \<and> fst (Compile (sized_engine (2 ^ 32 + 5)) ''1+1'' [] demo_ctx) = Some (replicate 5 0)
   \<and> fst (snd (Compile (sized_engine (2 ^ 32 + 5)) ''1+1'' [] demo_ctx)) = None
   \<and> length (replicate 5 (0 :: byte)) \<noteq> unat (4294967301 :: 64 word)
   \<and> Compile demo_engine ''throw 1'' [] demo_ctx =
       (None, Some (JSError ''Error'' []),
        demo_ctx\<lparr>trace := [C_JS_Eval ''throw 1'' ''<input>'' 32, C_JS_GetException,
                           C_JS_FreeValue (JSValue JS_TAG_OBJECT 7)]\<rparr>)"
proof -
  have a: "JS_WriteObject (sized_engine (2 ^ 32 + 5)) (JSValue JS_TAG_FUNCTION_BYTECODE 3) None
     = ((Some (replicate 4294967301 0), 4294967301), None)"
    by (simp add: sized_engine_def demo_engine_def)
  have e: "Eval (sized_engine (2 ^ 32 + 5)) ''1+1'' ([] @ [EvalFlagCompileOnly True]) demo_ctx =
     (JSValue JS_TAG_FUNCTION_BYTECODE 3, None,
      demo_ctx\<lparr>trace := [C_JS_Eval ''1+1'' ''<input>'' 32]\<rparr>)"
    by (simp add: Eval_def Eval_call_def Eval_cFlag_def options_cFlag_def
        Eval_initial_def EvalFlagCompileOnly_def call_JS_Eval_def emit_def IsException_def
        sized_engine_def demo_engine_def demo_ctx_def Let_def)
  have w: "call_JS_WriteObject (sized_engine (2 ^ 32 + 5)) (JSValue JS_TAG_FUNCTION_BYTECODE 3)
             (demo_ctx\<lparr>trace := [C_JS_Eval ''1+1'' ''<input>'' 32]\<rparr>) =
           ((Some (replicate 4294967301 0), 4294967301),
            demo_ctx\<lparr>trace := [C_JS_Eval ''1+1'' ''<input>'' 32,
                         C_JS_WriteObject (JSValue JS_TAG_FUNCTION_BYTECODE 3)]\<rparr>)"
    using a by (simp add: call_JS_WriteObject_def emit_def demo_ctx_def)
  have c: "C_int 4294967301 = 5"
    by (simp add: C_int_def)
  have m: "make_copy 5 (GoBytes (Some (replicate 4294967301 0)) 5) = replicate 5 (0 :: byte)"
    by (simp add: make_copy_def GoBytes_def)
  have b: "fst (Compile (sized_engine (2 ^ 32 + 5)) ''1+1'' [] demo_ctx) = Some (replicate 5 0)"
    using Compile_result(2) [OF e refl w] c m by simp
  have b2: "fst (snd (Compile (sized_engine (2 ^ 32 + 5)) ''1+1'' [] demo_ctx)) = None"
    using Compile_result(3) [OF e refl w] c by simp
  have d: "length (replicate 5 (0 :: byte)) \<noteq> unat (4294967301 :: 64 word)"
    by simp
  have t: "Compile demo_engine ''throw 1'' [] demo_ctx =
       (None, Some (JSError ''Error'' []),
        demo_ctx\<lparr>trace := [C_JS_Eval ''throw 1'' ''<input>'' 32, C_JS_GetException,
                           C_JS_FreeValue (JSValue JS_TAG_OBJECT 7)]\<rparr>)"
    by (simp add: Compile_def Eval_def Eval_call_def Eval_cFlag_def options_cFlag_def
        Eval_initial_def EvalFlagCompileOnly_def call_JS_Eval_def Exception_def
        call_JS_GetException_def Value_Free_def emit_def IsException_def
        demo_engine_def demo_ctx_def Let_def)
  from a b b2 d t show ?thesis
    by blast
qed

section \<open>File name defaults (C4)\<close>

text \<open>
  \<^verbatim>\<open>CompileFile\<close> adds the path as filename only when the options leave the filename
  empty: a non-empty filename given by the caller is the one the engine sees.
\<close>

lemma CompileFile_keeps_caller_filename:
  assumes "os_ReadFile ctx filePath = Inr b" and "custom \<noteq> []"
  shows "\<exists>cFlag. evals (trace (snd (snd (CompileFile E filePath (opts @ [EvalFileName custom]) ctx)))) =
           evals (trace ctx) @ [(b, custom, cFlag)]"
  using assms
  by (simp add: CompileFile_def CompileFile_opts_def evals_Compile apply_opts_app
      EvalFileName_def EvalFlagCompileOnly_def Let_def)

lemma CompileFile_defaults_to_path:
  assumes "os_ReadFile ctx filePath = Inr b" and "filename (apply_opts opts EvalOptions_zero) = []"
  shows "\<exists>cFlag. evals (trace (snd (snd (CompileFile E filePath opts ctx)))) =
           evals (trace ctx) @ [(b, filePath, cFlag)]"
  using assms
  by (simp add: CompileFile_def CompileFile_opts_def evals_Compile apply_opts_app
      EvalFileName_def EvalFlagCompileOnly_def Let_def)

text \<open>
  C4. \<^verbatim>\<open>EvalFile\<close> appends the path as the last filename option: whatever
  options the caller gives, an explicit filename among them included, the engine is
  called with the path as filename.
\<close>

theorem EvalFile_always_uses_path:
  assumes "os_ReadFile ctx filePath = Inr b"
  shows "\<exists>cFlag. evals (trace (snd (snd (EvalFile E filePath opts ctx)))) =
           evals (trace ctx) @ [(b, filePath, cFlag)]"
  using assms
  by (simp add: EvalFile_def evals_Eval apply_opts_append EvalFileName_def)

theorem EvalFile_always_uses_path_witness:
  "os_ReadFile demo_ctx ''main.js'' = Inr ''1+1''
   \<and> evals (trace (snd (snd (EvalFile demo_engine ''main.js'' [EvalFileName ''custom.js''] demo_ctx))))
       = [(''1+1'', ''main.js'', 0)]"
proof -
  have h: "os_ReadFile demo_ctx ''main.js'' = Inr ''1+1''"
    by (simp add: demo_ctx_def)
  from EvalFile_always_uses_path [OF h, of demo_engine "[EvalFileName ''custom.js'']"]
  obtain cFlag where
    c: "evals (trace (snd (snd (EvalFile demo_engine ''main.js'' [EvalFileName ''custom.js''] demo_ctx))))
          = evals (trace demo_ctx) @ [(''1+1'', ''main.js'', cFlag)]"
    by blast
  have "evals (trace (snd (snd (EvalFile demo_engine ''main.js'' [EvalFileName ''custom.js''] demo_ctx))))
          = [(''1+1'', ''main.js'', 0)]"
    by (simp add: EvalFile_def h evals_Eval Eval_cFlag_def options_cFlag_def Eval_initial_def
        EvalFileName_def demo_engine_def) (simp add: demo_ctx_def)
  with h show ?thesis
    by simp
qed

section \<open>Function and AsyncFunction registrations (C3)\<close>

lemma shim_creations_append [simp]:
  "shim_creations k (xs @ ys) = shim_creations k xs + shim_creations k ys"
  by (simp add: shim_creations_def)

lemma shim_creations_Nil [simp]: "shim_creations k [] = 0"
  by (simp add: shim_creations_def)

lemma shim_creations_Cons [simp]:
  "shim_creations k (c # cs) = (if c = C_JS_NewCFunction k then 1 else 0) + shim_creations k cs"
  by (simp add: shim_creations_def)

lemma allocated_append [simp]: "allocated (xs @ ys) = allocated xs @ allocated ys"
  by (simp add: allocated_def)

lemma allocated_Nil [simp]: "allocated [] = []"
  by (simp add: allocated_def)

lemma allocated_Cons [simp]:
  "allocated (c # cs) = (case c of C_NewHandle h _ \<Rightarrow> [h] | _ \<Rightarrow> []) @ allocated cs"
  by (simp add: allocated_def)

lemma shims_called_append [simp]: "shims_called (xs @ ys) = shims_called xs @ shims_called ys"
  by (simp add: shims_called_def)

lemma shims_called_Nil [simp]: "shims_called [] = []"
  by (simp add: shims_called_def)

lemma shims_called_Cons [simp]:
  "shims_called (c # cs) = (case c of C_JS_Call _ _ args \<Rightarrow> take 1 args | _ \<Rightarrow> []) @ shims_called cs"
  by (simp add: shims_called_def)
























text \<open>One registration on a fresh Context, run on the small engine.\<close>

lemma demo_Function_run:
  "Function demo_engine 0 demo_ctx =
     (Inr (JSValue JS_TAG_OBJECT 100),
      demo_ctx\<lparr>proxy := Some (JSValue JS_TAG_OBJECT 1), handleIdx := 2,
                handles := [1 \<mapsto> SyncFn 0, 2 \<mapsto> ContextRef],
                trace := [C_JS_NewCFunction InvokeProxy, C_NewHandle 1 (SyncFn 0),
                          C_NewHandle 2 ContextRef, C_JS_Eval sync_wrapper ''<input>'' 0,
                          C_JS_Call (JSValue JS_TAG_INT (length sync_wrapper)) JS_NULL
                            [JSValue JS_TAG_OBJECT 1, JSValue JS_TAG_INT 1, JSValue JS_TAG_INT 2],
                          C_JS_FreeValue (JSValue JS_TAG_INT (length sync_wrapper))]\<rparr>)"
proof -
  have d: "JS_DetectModule demo_engine sync_wrapper = 0"
    by (simp add: demo_engine_def sync_wrapper_def)
  have t: "take 5 sync_wrapper \<noteq> ''throw''"
    by (simp add: sync_wrapper_def)
  have e: "JS_Eval demo_engine sync_wrapper ''<input>'' 0 s = (JSValue JS_TAG_INT (length sync_wrapper), s)" for s
    using t by (simp add: demo_engine_def)
  have c: "Eval_cFlag demo_engine Eval_initial sync_wrapper = 0"
    using d by (simp add: Eval_cFlag_def options_cFlag_def Eval_initial_def demo_engine_def)
  have ev: "Eval demo_engine sync_wrapper [] ctx =
              (JSValue JS_TAG_INT (length sync_wrapper), None,
               ctx\<lparr>trace := trace ctx @ [C_JS_Eval sync_wrapper ''<input>'' 0]\<rparr>)" for ctx :: "JSValue option Context"
    using c e [of "ref ctx"]
    by (simp add: Eval_def Eval_call_def call_JS_Eval_def emit_def IsException_def Let_def)
       (simp add: Eval_initial_def)
  have eng: "JS_NewCFunction demo_engine k s = (JSValue JS_TAG_OBJECT (case k of InvokeProxy \<Rightarrow> 1 | InvokeAsyncProxy \<Rightarrow> 2), s)"
    "JS_Call demo_engine f this args s = (JSValue JS_TAG_OBJECT 100, s)"
    "JS_NewInt64 demo_engine w = JSValue JS_TAG_INT (unat w)"
    "JS_FreeValue demo_engine v s = s" for k s f this args w v
    by (simp_all add: demo_engine_def)
  show ?thesis
    by (simp add: Function_def ev eng NewHandle_def call_JS_NewCFunction_def call_JS_Call_def
        Value_Free_def emit_def Int64_def Null_def Let_def demo_ctx_def)
qed



end
